theory Spec2Isabelle
  imports Main "HOL-Library.Multiset"
begin

section \<open>Paths and resource identifiers\<close>

text \<open>
  The explorers build their node identities with two libraries of the platform: the
  \<open>path\<close> module (\<open>dirname\<close>, \<open>basename\<close>, \<open>join\<close>) and the editor's \<open>Uri\<close> class (\<open>parse\<close>,
  \<open>file\<close>, \<open>with\<close>, \<open>fsPath\<close>). They are written out here as they behave on a POSIX host,
  on strings of code units. Percent-decoding and the validity checks of \<open>Uri\<close> (which
  throw on an ill-formed scheme or path) are left out: no input below contains a percent
  sign or is ill-formed.
\<close>

definition slash :: char where
  "slash = CHR ''/''"

text \<open>\<open>path.dirname\<close>: the scan starts at the last character and never looks at the first
  one; \<open>end\<close> is the index of the last separator before the final segment.\<close>

definition dirname :: "string \<Rightarrow> string" where
  "dirname p =
     (if p = [] then ''.''
      else let hasRoot = (hd p = slash);
               r = dropWhile (\<lambda>c. c \<noteq> slash) (dropWhile (\<lambda>c. c = slash) (rev (tl p)));
               end = length r
           in if r = [] then (if hasRoot then ''/'' else ''.'')
              else if hasRoot \<and> end = 1 then ''//''
              else take end p)"

text \<open>\<open>path.basename\<close> without an extension argument: the last segment, trailing
  separators ignored.\<close>

definition basename :: "string \<Rightarrow> string" where
  "basename p = rev (takeWhile (\<lambda>c. c \<noteq> slash) (dropWhile (\<lambda>c. c = slash) (rev p)))"

text \<open>Splitting at separators, and \<open>path.normalize\<close>: empty and \<open>.\<close> segments are dropped,
  \<open>..\<close> removes the segment before it (or stays, in a relative path with nothing to
  remove).\<close>

fun splitSlash :: "string \<Rightarrow> string \<Rightarrow> string list" where
  "splitSlash acc [] = [rev acc]"
| "splitSlash acc (c # cs) =
     (if c = slash then rev acc # splitSlash [] cs else splitSlash (c # acc) cs)"

fun normalizeSegments :: "bool \<Rightarrow> string list \<Rightarrow> string list \<Rightarrow> string list" where
  "normalizeSegments allowAboveRoot res [] = res"
| "normalizeSegments allowAboveRoot res (seg # segs) =
     (if seg = [] \<or> seg = ''.'' then normalizeSegments allowAboveRoot res segs
      else if seg = ''..'' then
        (if res \<noteq> [] \<and> last res \<noteq> ''..''
         then normalizeSegments allowAboveRoot (butlast res) segs
         else if allowAboveRoot then normalizeSegments allowAboveRoot (res @ [seg]) segs
         else normalizeSegments allowAboveRoot res segs)
      else normalizeSegments allowAboveRoot (res @ [seg]) segs)"

fun joinSlash :: "string list \<Rightarrow> string" where
  "joinSlash [] = []"
| "joinSlash [s] = s"
| "joinSlash (s # t # ss) = s @ slash # joinSlash (t # ss)"

definition normalize :: "string \<Rightarrow> string" where
  "normalize p =
     (if p = [] then ''.''
      else let isAbsolute = (hd p = slash);
               trailingSeparator = (last p = slash);
               q = joinSlash (normalizeSegments (\<not> isAbsolute) [] (splitSlash [] p))
           in if q = [] then (if isAbsolute then ''/'' else if trailingSeparator then ''./'' else ''.'')
              else (if isAbsolute then ''/'' else []) @ q @ (if trailingSeparator then ''/'' else []))"

text \<open>\<open>path.join\<close> of two arguments: the non-empty ones, joined by a separator and
  normalized.\<close>

definition join :: "string \<Rightarrow> string \<Rightarrow> string" where
  "join a b =
     (let joined = (if a = [] then b else if b = [] then a else a @ slash # b)
      in if joined = [] then ''.'' else normalize joined)"

record uri =
  scheme :: string
  authority :: string
  path :: string
  query :: string
  fragment :: string

text \<open>The constructor of \<open>Uri\<close>: a missing scheme becomes \<open>file\<close>, and the path of a \<open>file\<close>,
  \<open>http\<close> or \<open>https\<close> resource gets a leading separator.\<close>

definition schemeFix :: "string \<Rightarrow> string" where
  "schemeFix s = (if s = [] then ''file'' else s)"

definition referenceResolution :: "string \<Rightarrow> string \<Rightarrow> string" where
  "referenceResolution s p =
     (if s = ''https'' \<or> s = ''http'' \<or> s = ''file''
      then (if p = [] then ''/'' else if hd p \<noteq> slash then slash # p else p)
      else p)"

definition mkUri :: "string \<Rightarrow> string \<Rightarrow> string \<Rightarrow> string \<Rightarrow> string \<Rightarrow> uri" where
  "mkUri s a p q f =
     \<lparr>scheme = schemeFix s, authority = a, path = referenceResolution (schemeFix s) p,
      query = q, fragment = f\<rparr>"

text \<open>\<open>Uri.parse\<close> splits its argument with the regular expression of RFC 3986: an optional
  scheme (characters other than \<open>:/?#\<close>, then a colon), an optional authority (two
  separators, then characters other than \<open>/?#\<close>), the path (up to \<open>?\<close> or \<open>#\<close>), an optional
  query and an optional fragment.\<close>

definition uriParse :: "string \<Rightarrow> uri" where
  "uriParse v =
     (let s0 = takeWhile (\<lambda>c. c \<notin> set '':/?#'') v;
          r0 = dropWhile (\<lambda>c. c \<notin> set '':/?#'') v;
          hasScheme = (s0 \<noteq> [] \<and> take 1 r0 = '':'');
          r1 = (if hasScheme then drop 1 r0 else v);
          hasAuthority = (take 2 r1 = ''//'');
          a = (if hasAuthority then takeWhile (\<lambda>c. c \<notin> set ''/?#'') (drop 2 r1) else []);
          r2 = (if hasAuthority then dropWhile (\<lambda>c. c \<notin> set ''/?#'') (drop 2 r1) else r1);
          p = takeWhile (\<lambda>c. c \<notin> set ''?#'') r2;
          r3 = dropWhile (\<lambda>c. c \<notin> set ''?#'') r2;
          hasQuery = (take 1 r3 = ''?'');
          q = (if hasQuery then takeWhile (\<lambda>c. c \<noteq> CHR ''#'') (drop 1 r3) else []);
          r4 = (if hasQuery then dropWhile (\<lambda>c. c \<noteq> CHR ''#'') (drop 1 r3) else r3)
      in mkUri (if hasScheme then s0 else []) a p q (drop 1 r4))"

text \<open>\<open>Uri.file\<close>: a path that starts with two separators gives its first segment to the
  authority.\<close>

definition uriFile :: "string \<Rightarrow> uri" where
  "uriFile p =
     (if take 2 p = ''//''
      then let a = takeWhile (\<lambda>c. c \<noteq> slash) (drop 2 p);
               rest = dropWhile (\<lambda>c. c \<noteq> slash) (drop 2 p)
           in mkUri ''file'' a (if rest = [] then ''/'' else rest) [] []
      else mkUri ''file'' [] p [] [])"

text \<open>\<open>uri.with({ path })\<close>.\<close>

definition withPath :: "uri \<Rightarrow> string \<Rightarrow> uri" where
  "withPath u p = mkUri (scheme u) (authority u) p (query u) (fragment u)"

definition isLetter :: "char \<Rightarrow> bool" where
  "isLetter c = ((65 \<le> (of_char c :: nat) \<and> (of_char c :: nat) \<le> 90)
                 \<or> (97 \<le> (of_char c :: nat) \<and> (of_char c :: nat) \<le> 122))"

definition toLowerCase :: "char \<Rightarrow> char" where
  "toLowerCase c =
     (if 65 \<le> (of_char c :: nat) \<and> (of_char c :: nat) \<le> 90
      then char_of ((of_char c :: nat) + 32) else c)"

text \<open>\<open>uri.fsPath\<close>: a \<open>file\<close> resource with an authority gives a UNC path, a path that starts
  with a drive letter loses its leading separator, any other resource gives its path.\<close>

definition fsPath :: "uri \<Rightarrow> string" where
  "fsPath u =
     (if authority u \<noteq> [] \<and> length (path u) > 1 \<and> scheme u = ''file''
      then ''//'' @ authority u @ path u
      else if length (path u) \<ge> 3 \<and> path u ! 0 = slash \<and> isLetter (path u ! 1)
              \<and> path u ! 2 = CHR '':''
      then toLowerCase (path u ! 1) # drop 2 (path u)
      else path u)"

section \<open>Tree items\<close>

text \<open>The editor's \<open>TreeItem\<close>, with the fields the providers set; a field that a
  provider leaves undefined is \<open>None\<close>.\<close>

datatype TreeItemCollapsibleState = CNone | Collapsed | Expanded

datatype argument = ARange nat nat | AUri uri

record Command =
  command_id :: string
  title :: string
  arguments :: "argument list"

record TreeItem =
  label :: "string option"
  highlights :: "(nat \<times> nat) list option"
  itemId :: "string option"
  tooltip :: "string option"
  resourceUri :: "uri option"
  collapsibleState :: "TreeItemCollapsibleState option"
  command :: "Command option"
  iconPath :: "(string \<times> string) option"
  contextValue :: "string option"

definition emptyItem :: TreeItem where
  "emptyItem = \<lparr>label = None, highlights = None, itemId = None, tooltip = None,
                 resourceUri = None, collapsibleState = None, command = None,
                 iconPath = None, contextValue = None\<rparr>"

section \<open>The static test view (testView.ts)\<close>

text \<open>The view shows a constant object; the key of a node is the key of its parent
  followed by one more character. An object is the list of its own properties in
  declaration order, which is the order of \<open>Object.keys\<close>.\<close>

datatype jsobj = Obj "(string \<times> jsobj) list"

primrec properties :: "jsobj \<Rightarrow> (string \<times> jsobj) list" where
  "properties (Obj kvs) = kvs"

definition keys :: "jsobj \<Rightarrow> string list" where
  "keys t = map fst (properties t)"

definition tree :: jsobj where
  "tree = Obj
     [(''a'', Obj
        [(''aa'', Obj [(''aaa'', Obj [(''aaaa'', Obj [(''aaaaa'', Obj [(''aaaaaa'', Obj [])])])])]),
         (''ab'', Obj [])]),
      (''b'', Obj [(''ba'', Obj []), (''bb'', Obj [])])]"

text \<open>The loop of \<open>getTreeElement\<close> over \<open>i = 0, ..., element.length - 1\<close>: it steps from
  \<open>parent\<close> to its property \<open>element.substring(0, i + 1)\<close> and gives up with null when
  there is none.\<close>

fun getTreeElementLoop :: "string \<Rightarrow> nat list \<Rightarrow> jsobj \<Rightarrow> jsobj option" where
  "getTreeElementLoop element [] parent = Some parent"
| "getTreeElementLoop element (i # is) parent =
     (case map_of (properties parent) (take (i + 1) element) of
        None \<Rightarrow> None
      | Some p \<Rightarrow> getTreeElementLoop element is p)"

definition getTreeElement :: "string \<Rightarrow> jsobj option" where
  "getTreeElement element = getTreeElementLoop element [0..<length element] tree"

text \<open>The module's \<open>getChildren\<close>; \<open>!key\<close> holds for undefined and for the empty string.\<close>

definition getChildren :: "string option \<Rightarrow> string list" where
  "getChildren key =
     (case key of
        None \<Rightarrow> keys tree
      | Some k \<Rightarrow>
          if k = [] then keys tree
          else (case getTreeElement k of
                  Some treeElement \<Rightarrow> keys treeElement
                | None \<Rightarrow> []))"

text \<open>The module's \<open>getTreeItem\<close>.\<close>

definition getTreeItem :: "string \<Rightarrow> TreeItem" where
  "getTreeItem key =
     emptyItem\<lparr>
       label := Some key,
       highlights := (if length key > 1 then Some [(length key - 2, length key - 1)] else None),
       tooltip := Some (''Tooltip for '' @ key),
       collapsibleState :=
         Some (case getTreeElement key of
                 None \<Rightarrow> CNone
               | Some treeElement \<Rightarrow> if keys treeElement \<noteq> [] then Collapsed else CNone)\<rparr>"

text \<open>The provider that \<open>aNodeWithIdTreeDataProvider\<close> returns. An element is a \<open>Key\<close>
  object; it is identified with the key it holds (\<open>getNode\<close> interns one object per key).\<close>

definition tv_getChildren :: "string option \<Rightarrow> string list" where
  "tv_getChildren element = getChildren element"

definition tv_getTreeItem :: "string \<Rightarrow> TreeItem" where
  "tv_getTreeItem element = (getTreeItem element)\<lparr>itemId := Some element\<rparr>"

definition tv_getParent :: "string \<Rightarrow> string option" where
  "tv_getParent key =
     (let parentKey = take (length key - 1) key
      in if parentKey \<noteq> [] then Some parentKey else None)"

text \<open>Every object of a tree with the key it is reached by, the tree itself first; used to
  state what the keys of the constant tree look like.\<close>

fun nodesOf :: "string \<Rightarrow> jsobj \<Rightarrow> (string \<times> jsobj) list" where
  "nodesOf k (Obj kvs) = (k, Obj kvs) # concat (map (\<lambda>(k', t). nodesOf k' t) kvs)"

section \<open>The JSON outline provider (src/jsonOutline.ts)\<close>

text \<open>
  The provider keeps the text of the active editor's document and the tree that the
  jsonc-parser library parsed from it. A NodeId is the offset of a node in the text.
  The library is used as a black box: \<open>parseTree\<close> and \<open>getLocation\<close> are parameters of the
  model (the record \<open>jsonc\<close>), so every theorem holds for whatever they compute.
  \<open>findNodeAtLocation\<close> is a short walk over the tree and is written out.
\<close>

datatype error = TypeError

datatype ntype = TObject | TArray | TProperty | TString | TNumber | TBoolean | TNull

text \<open>A literal's value. A number is kept as the text that its \<open>toString()\<close> gives; no
  function of the provider computes with it.\<close>

datatype jvalue = VString string | VNumber string | VBoolean bool | VNull

text \<open>The library's \<open>Node\<close>: \<open>children\<close> is undefined on a literal, \<open>value\<close> is undefined on an
  object, array or property. The \<open>parent\<close> link is not a field here: a node found in the
  tree is returned together with its parent.\<close>

datatype node =
  Node (ntype: ntype) (noffset: nat) (nlength: nat) (nvalue: "jvalue option")
       (children: "node list option")

datatype segment = Key string | Index nat

record jsonc =
  parseTree :: "string \<Rightarrow> node option"
  getLocation :: "string \<Rightarrow> nat \<Rightarrow> segment list"

text \<open>The property of an object whose key is the segment; the library takes the first
  property node with two children whose first child has that value. (A property node
  with no child at all, which the parser never builds, is passed over here.)\<close>

fun findProperty :: "string \<Rightarrow> node list \<Rightarrow> (node \<times> node) option" where
  "findProperty s [] = None"
| "findProperty s (p # ps) =
     (case children p of
        Some [k, v] \<Rightarrow> if nvalue k = Some (VString s) then Some (p, v) else findProperty s ps
      | _ \<Rightarrow> findProperty s ps)"

text \<open>\<open>walk par n segs\<close> follows the segments from node \<open>n\<close>, whose parent is \<open>par\<close>; the result is
  the node reached and its parent.\<close>

fun walk :: "node option \<Rightarrow> node \<Rightarrow> segment list \<Rightarrow> (node option \<times> node) option" where
  "walk par n [] = Some (par, n)"
| "walk par n (Key s # rest) =
     (if ntype n \<noteq> TObject then None
      else case children n of
             None \<Rightarrow> None
           | Some cs \<Rightarrow> (case findProperty s cs of
                          None \<Rightarrow> None
                        | Some (p, v) \<Rightarrow> walk (Some p) v rest))"
| "walk par n (Index i # rest) =
     (if ntype n \<noteq> TArray then None
      else case children n of
             None \<Rightarrow> None
           | Some cs \<Rightarrow> if i \<ge> length cs then None else walk (Some n) (cs ! i) rest)"

definition findNodeAtLocation ::
    "node option \<Rightarrow> segment list \<Rightarrow> (node option \<times> node) option" where
  "findNodeAtLocation root locationPath =
     (case root of None \<Rightarrow> None | Some r \<Rightarrow> walk None r locationPath)"

text \<open>An event as an observer receives it: the payload of \<open>fire\<close>, and the text and tree the
  provider holds at that moment (what the observer finds when it queries the provider from
  its handler, which \<open>fire\<close> runs synchronously).\<close>

record notice =
  payload :: "nat option"
  seen_text :: string
  seen_tree :: "node option"

text \<open>The provider's fields (\<open>this.text\<close>, \<open>this.tree\<close>, \<open>this.editor\<close>, \<open>this.autoRefresh\<close>), the
  events fired so far, and the part of the host the provider reads: the text of each open
  document and \<open>window.activeTextEditor\<close>. An editor is named by the uri of its document,
  so that \<open>this.editor.document\<close> stays the live document.\<close>

record outline =
  p_text :: string
  p_tree :: "node option"
  p_editor :: "string option"
  p_autoRefresh :: bool
  fired :: "notice list"
  documents :: "string \<Rightarrow> string"
  activeTextEditor :: "string option"

definition doParseTree :: "jsonc \<Rightarrow> outline \<Rightarrow> outline" where
  "doParseTree lib st =
     (case activeTextEditor st of
        None \<Rightarrow> st\<lparr>p_text := [], p_tree := None, p_editor := None\<rparr>
      | Some u \<Rightarrow> st\<lparr>p_text := documents st u,
                      p_tree := parseTree lib (documents st u),
                      p_editor := Some u\<rparr>)"

definition fire :: "nat option \<Rightarrow> outline \<Rightarrow> outline" where
  "fire ev st =
     st\<lparr>fired := fired st @ [\<lparr>payload = ev, seen_text = p_text st, seen_tree = p_tree st\<rparr>]\<rparr>"

text \<open>\<open>if (offset)\<close> on an optional number: undefined and 0 are both falsy.\<close>

fun truthy :: "nat option \<Rightarrow> bool" where
  "truthy None = False"
| "truthy (Some n) = (n \<noteq> 0)"

definition refresh :: "jsonc \<Rightarrow> nat option \<Rightarrow> outline \<Rightarrow> outline" where
  "refresh lib offset st =
     (let st1 = doParseTree lib st
      in if truthy offset then fire offset st1 else fire None st1)"

text \<open>The loop of \<open>onDocumentChanged\<close> over \<open>contentChanges\<close>; a change is given by the offset of
  the start of its range.\<close>

fun changesLoop :: "jsonc \<Rightarrow> nat list \<Rightarrow> outline \<Rightarrow> outline" where
  "changesLoop lib [] st = st"
| "changesLoop lib (c # cs) st =
     (let locationPath = butlast (getLocation lib (p_text st) c);
          node = (if locationPath \<noteq> [] then findNodeAtLocation (p_tree st) locationPath
                  else None);
          st1 = doParseTree lib st
      in changesLoop lib cs (fire (map_option (\<lambda>f. noffset (snd f)) node) st1))"

definition onDocumentChanged ::
    "jsonc \<Rightarrow> string \<Rightarrow> nat list \<Rightarrow> outline \<Rightarrow> error + outline" where
  "onDocumentChanged lib uri contentChanges st =
     (case p_editor st of
        None \<Rightarrow> Inl TypeError
      | Some document \<Rightarrow>
          if p_autoRefresh st \<and> uri = document
          then Inr (changesLoop lib contentChanges st)
          else Inr st)"


text \<open>\<open>getChildrenOffsets\<close>: iterating the children of an undefined node, or of a literal
  (whose \<open>children\<close> is undefined), throws.\<close>

definition getChildrenOffsets :: "jsonc \<Rightarrow> outline \<Rightarrow> node option \<Rightarrow> error + nat list" where
  "getChildrenOffsets lib st node =
     (case node of
        None \<Rightarrow> Inl TypeError
      | Some n \<Rightarrow>
          (case children n of
             None \<Rightarrow> Inl TypeError
           | Some cs \<Rightarrow>
               Inr (List.map_filter
                      (\<lambda>child. map_option (\<lambda>f. noffset (snd f))
                         (findNodeAtLocation (p_tree st)
                            (getLocation lib (p_text st) (noffset child))))
                      cs)))"

text \<open>\<open>getChildren\<close>: with a truthy offset, the children of the node found there; otherwise
  the children of the root, or none when there is no tree.\<close>

definition json_rootChildren :: "jsonc \<Rightarrow> outline \<Rightarrow> error + nat list" where
  "json_rootChildren lib st =
     (case p_tree st of
        None \<Rightarrow> Inr []
      | Some t \<Rightarrow> getChildrenOffsets lib st (Some t))"

definition json_getChildren :: "jsonc \<Rightarrow> outline \<Rightarrow> nat option \<Rightarrow> error + nat list" where
  "json_getChildren lib st offset =
     (case offset of
        None \<Rightarrow> json_rootChildren lib st
      | Some off \<Rightarrow>
          if off \<noteq> 0
          then getChildrenOffsets lib st
                 (map_option snd
                    (findNodeAtLocation (p_tree st) (getLocation lib (p_text st) off)))
          else json_rootChildren lib st)"

text \<open>The document's \<open>positionAt\<close> clamps an offset to the text; \<open>getText\<close> of the range
  between two offsets.\<close>

definition positionAt :: "string \<Rightarrow> nat \<Rightarrow> nat" where
  "positionAt doc off = min off (length doc)"

definition getText :: "string \<Rightarrow> nat \<Rightarrow> nat \<Rightarrow> string" where
  "getText doc a b = take (positionAt doc b - positionAt doc a) (drop (positionAt doc a) doc)"

text \<open>Decimal digits of an index, for \<open>indexOf(node).toString()\<close>.\<close>

fun digits :: "nat \<Rightarrow> string" where
  "digits n =
     (if n < 10 then [''0123456789'' ! n]
      else digits (n div 10) @ [''0123456789'' ! (n mod 10)])"

fun indexOf :: "node \<Rightarrow> nat \<Rightarrow> node list \<Rightarrow> string" where
  "indexOf n i [] = ''-1''"
| "indexOf n i (c # cs) = (if c = n then digits i else indexOf n (Suc i) cs)"

text \<open>\<open>value.toString()\<close> throws on null and on undefined.\<close>

fun toString :: "jvalue option \<Rightarrow> error + string" where
  "toString None = Inl TypeError"
| "toString (Some VNull) = Inl TypeError"
| "toString (Some (VString s)) = Inr s"
| "toString (Some (VNumber s)) = Inr s"
| "toString (Some (VBoolean b)) = Inr (if b then ''true'' else ''false'')"

definition getLabel :: "outline \<Rightarrow> node option \<Rightarrow> node \<Rightarrow> error + string" where
  "getLabel st parent node =
     (case parent of
        None \<Rightarrow> Inl TypeError
      | Some par \<Rightarrow>
          if ntype par = TArray then
            (case children par of
               None \<Rightarrow> Inl TypeError
             | Some cs \<Rightarrow>
                 if ntype node = TObject then Inr (indexOf node 0 cs @ '':{ }'')
                 else if ntype node = TArray then Inr (indexOf node 0 cs @ '':[ ]'')
                 else (case toString (nvalue node) of
                         Inl e \<Rightarrow> Inl e
                       | Inr s \<Rightarrow> Inr (indexOf node 0 cs @ '':'' @ s)))
          else
            (case children par of
               None \<Rightarrow> Inl TypeError
             | Some [] \<Rightarrow> Inl TypeError
             | Some (k # ks) \<Rightarrow>
                 (case toString (nvalue k) of
                    Inl e \<Rightarrow> Inl e
                  | Inr property \<Rightarrow>
                      if ntype node = TObject then Inr (''{ } '' @ property)
                      else if ntype node = TArray then Inr (''[ ] '' @ property)
                      else (case p_editor st of
                              None \<Rightarrow> Inl TypeError
                            | Some u \<Rightarrow>
                                Inr (property @ '': '' @
                                     getText (documents st u) (noffset node)
                                       (noffset node + nlength node))))))"

text \<open>The icon files, relative to the extension's directory.\<close>

definition getIcon :: "node \<Rightarrow> (string \<times> string) option" where
  "getIcon node =
     (if ntype node = TBoolean
      then Some (''resources/light/boolean.svg'', ''resources/dark/boolean.svg'')
      else if ntype node = TString
      then Some (''resources/light/string.svg'', ''resources/dark/string.svg'')
      else if ntype node = TNumber
      then Some (''resources/light/number.svg'', ''resources/dark/number.svg'')
      else None)"

definition typeName :: "ntype \<Rightarrow> string" where
  "typeName t =
     (case t of TObject \<Rightarrow> ''object'' | TArray \<Rightarrow> ''array'' | TProperty \<Rightarrow> ''property''
      | TString \<Rightarrow> ''string'' | TNumber \<Rightarrow> ''number'' | TBoolean \<Rightarrow> ''boolean''
      | TNull \<Rightarrow> ''null'')"

text \<open>\<open>getTreeItem\<close> returns null when the offset finds no node.\<close>

definition json_getTreeItem :: "jsonc \<Rightarrow> outline \<Rightarrow> nat \<Rightarrow> error + TreeItem option" where
  "json_getTreeItem lib st offset =
     (case findNodeAtLocation (p_tree st) (getLocation lib (p_text st) offset) of
        None \<Rightarrow> Inr None
      | Some (parent, valueNode) \<Rightarrow>
          (case getLabel st parent valueNode of
             Inl e \<Rightarrow> Inl e
           | Inr l \<Rightarrow>
               (case p_editor st of
                  None \<Rightarrow> Inl TypeError
                | Some u \<Rightarrow>
                    Inr (Some (emptyItem\<lparr>
                      label := Some l,
                      collapsibleState :=
                        Some (if ntype valueNode = TObject then Expanded
                              else if ntype valueNode = TArray then Collapsed else CNone),
                      command := Some \<lparr>command_id = ''extension.openJsonSelection'', title = [],
                        arguments =
                          [ARange (positionAt (documents st u) (noffset valueNode))
                             (positionAt (documents st u)
                                (noffset valueNode + nlength valueNode))]\<rparr>,
                      iconPath := getIcon valueNode,
                      contextValue := Some (typeName (ntype valueNode))\<rparr>)))))"

text \<open>\<open>rename\<close>, in the order in which its parts run. The callback of \<open>editor.edit\<close> finds the
  node to overwrite: the node at the offset, or the first child of its parent when the
  parent is not an array.\<close>

definition renameTarget :: "jsonc \<Rightarrow> outline \<Rightarrow> nat \<Rightarrow> error + node" where
  "renameTarget lib st offset =
     (case findNodeAtLocation (p_tree st) (getLocation lib (p_text st) offset) of
        None \<Rightarrow> Inl TypeError
      | Some (parent, propertyNode) \<Rightarrow>
          (case parent of
             None \<Rightarrow> Inl TypeError
           | Some par \<Rightarrow>
               if ntype par \<noteq> TArray then
                 (case children par of
                    None \<Rightarrow> Inl TypeError
                  | Some [] \<Rightarrow> Inl TypeError
                  | Some (k # ks) \<Rightarrow> Inr k)
               else Inr propertyNode))"

text \<open>\<open>editBuilder.replace(range, text)\<close> on a document, the range given by two offsets.\<close>

definition replaceRange :: "string \<Rightarrow> nat \<Rightarrow> nat \<Rightarrow> string \<Rightarrow> string" where
  "replaceRange doc a b new = take (positionAt doc a) doc @ new @ drop (positionAt doc b) doc"

definition quoted :: "string \<Rightarrow> string" where
  "quoted v = CHR 0x22 # v @ [CHR 0x22]"

text \<open>An edit of a document from outside the provider: the host replaces the text of the
  document and then reports the change to \<open>onDocumentChanged\<close>.\<close>

definition externalEdit ::
    "jsonc \<Rightarrow> string \<Rightarrow> string \<Rightarrow> nat list \<Rightarrow> outline \<Rightarrow> error + outline" where
  "externalEdit lib u new contentChanges st =
     onDocumentChanged lib u contentChanges (st\<lparr>documents := (documents st)(u := new)\<rparr>)"

text \<open>The whole of \<open>rename\<close>: the input box gives a value or none; the edit is applied to the
  editor's document and reported to \<open>onDocumentChanged\<close> like any other edit; the timer then
  runs \<open>doParseTree\<close> and \<open>refresh(offset)\<close>. An exception in the callback leaves the document
  as it was.\<close>

definition rename :: "jsonc \<Rightarrow> nat \<Rightarrow> string option \<Rightarrow> outline \<Rightarrow> error + outline" where
  "rename lib offset input st =
     (case input of
        None \<Rightarrow> Inr st
      | Some v \<Rightarrow>
          (case p_editor st of
             None \<Rightarrow> Inl TypeError
           | Some u \<Rightarrow>
               (case renameTarget lib st offset of
                  Inl e \<Rightarrow> Inl e
                | Inr propertyNode \<Rightarrow>
                    let a = noffset propertyNode;
                        b = noffset propertyNode + nlength propertyNode
                    in (case externalEdit lib u (replaceRange (documents st u) a b (quoted v))
                               [positionAt (documents st u) a] st of
                          Inl e \<Rightarrow> Inl e
                        | Inr st2 \<Rightarrow> Inr (refresh lib (Some offset) (doParseTree lib st2))))))"

section \<open>The FTP explorer (ftpExplorer.ts)\<close>

text \<open>
  The remote side is a parameter: whether the connection becomes ready or reports an
  error, and what \<open>list\<close> and \<open>get\<close> call back with. Every operation returns, next to its
  result, the calls it made on the client, in order, so that the opening and closing of
  connections can be read off.
\<close>

record IEntry =
  entry_name :: string
  entry_type :: string

record FtpNode =
  resource :: uri
  isDirectory :: bool

record server =
  onConnect :: "string option"
  onList :: "string option \<Rightarrow> string + IEntry list"
  onGet :: "string \<Rightarrow> string + string list"

datatype call = Connect | List "string option" | Get string | End

datatype ftp_error = ConnectFailed string | Failed string

text \<open>\<open>Array.prototype.sort\<close> with a comparison function, as a stable insertion sort: an
  element goes before the first later element that it does not compare greater than.\<close>

fun insertBy :: "('a \<Rightarrow> 'a \<Rightarrow> int) \<Rightarrow> 'a \<Rightarrow> 'a list \<Rightarrow> 'a list" where
  "insertBy cmp x [] = [x]"
| "insertBy cmp x (y # ys) = (if cmp x y \<le> 0 then x # y # ys else y # insertBy cmp x ys)"

definition sortBy :: "('a \<Rightarrow> 'a \<Rightarrow> int) \<Rightarrow> 'a list \<Rightarrow> 'a list" where
  "sortBy cmp xs = foldr (insertBy cmp) xs []"

text \<open>The comparison of \<open>FtpModel.sort\<close>; \<open>localeCompare\<close> depends on the host's locale and is a
  parameter.\<close>

definition ftp_compare :: "(string \<Rightarrow> string \<Rightarrow> int) \<Rightarrow> FtpNode \<Rightarrow> FtpNode \<Rightarrow> int" where
  "ftp_compare localeCompare n1 n2 =
     (if isDirectory n1 \<and> \<not> isDirectory n2 then - 1
      else if \<not> isDirectory n1 \<and> isDirectory n2 then 1
      else localeCompare (basename (fsPath (resource n1))) (basename (fsPath (resource n2))))"

definition ftp_sort :: "(string \<Rightarrow> string \<Rightarrow> int) \<Rightarrow> FtpNode list \<Rightarrow> FtpNode list" where
  "ftp_sort localeCompare nodes = sortBy (ftp_compare localeCompare) nodes"

definition connect :: "server \<Rightarrow> (ftp_error + unit) \<times> call list" where
  "connect srv =
     (case onConnect srv of
        None \<Rightarrow> (Inr (), [Connect])
      | Some message \<Rightarrow> (Inl (ConnectFailed (''Error while connecting: '' @ message)), [Connect]))"

definition roots ::
    "(string \<Rightarrow> string \<Rightarrow> int) \<Rightarrow> string \<Rightarrow> server \<Rightarrow> (ftp_error + FtpNode list) \<times> call list" where
  "roots localeCompare host srv =
     (case connect srv of
        (Inl e, calls) \<Rightarrow> (Inl e, calls)
      | (Inr client, calls) \<Rightarrow>
          (case onList srv None of
             Inl err \<Rightarrow> (Inl (Failed err), calls @ [List None])
           | Inr list \<Rightarrow>
               (Inr (ftp_sort localeCompare
                       (map (\<lambda>entry. \<lparr>resource = uriParse (''ftp://'' @ host @ ''///'' @ entry_name entry),
                                      isDirectory = (entry_type entry = ''d'')\<rparr>) list)),
                calls @ [List None, End])))"

definition ftp_model_getChildren ::
    "(string \<Rightarrow> string \<Rightarrow> int) \<Rightarrow> server \<Rightarrow> FtpNode \<Rightarrow> (ftp_error + FtpNode list) \<times> call list" where
  "ftp_model_getChildren localeCompare srv node =
     (case connect srv of
        (Inl e, calls) \<Rightarrow> (Inl e, calls)
      | (Inr client, calls) \<Rightarrow>
          (case onList srv (Some (fsPath (resource node))) of
             Inl err \<Rightarrow> (Inl (Failed err), calls @ [List (Some (fsPath (resource node)))])
           | Inr list \<Rightarrow>
               (Inr (ftp_sort localeCompare
                       (map (\<lambda>entry. \<lparr>resource = uriParse (fsPath (resource node) @ ''/'' @ entry_name entry),
                                      isDirectory = (entry_type entry = ''d'')\<rparr>) list)),
                calls @ [List (Some (fsPath (resource node))), End])))"

text \<open>\<open>getContent\<close>: the chunks of the stream are appended; the connection is ended when the
  stream ends.\<close>

definition getContent :: "server \<Rightarrow> uri \<Rightarrow> (ftp_error + string) \<times> call list" where
  "getContent srv res =
     (case connect srv of
        (Inl e, calls) \<Rightarrow> (Inl e, calls)
      | (Inr client, calls) \<Rightarrow>
          (case onGet srv (drop 2 (path res)) of
             Inl err \<Rightarrow> (Inl (Failed err), calls @ [Get (drop 2 (path res))])
           | Inr chunks \<Rightarrow> (Inr (concat chunks), calls @ [Get (drop 2 (path res)), End])))"

text \<open>The tree data provider over the model.\<close>

definition ftp_getChildren ::
    "(string \<Rightarrow> string \<Rightarrow> int) \<Rightarrow> string \<Rightarrow> server \<Rightarrow> FtpNode option
      \<Rightarrow> (ftp_error + FtpNode list) \<times> call list" where
  "ftp_getChildren localeCompare host srv element =
     (case element of
        Some e \<Rightarrow> ftp_model_getChildren localeCompare srv e
      | None \<Rightarrow> roots localeCompare host srv)"

definition ftp_getParent :: "FtpNode \<Rightarrow> FtpNode option" where
  "ftp_getParent element =
     (let parent = withPath (resource element) (dirname (path (resource element)))
      in if path parent \<noteq> ''//'' then Some \<lparr>resource = parent, isDirectory = True\<rparr> else None)"

definition ftp_getTreeItem :: "FtpNode \<Rightarrow> TreeItem" where
  "ftp_getTreeItem element =
     emptyItem\<lparr>
       resourceUri := Some (resource element),
       collapsibleState := (if isDirectory element then Some Collapsed else None),
       command := (if isDirectory element then None
                   else Some \<lparr>command_id = ''ftpExplorer.openFtpResource'',
                              title = ''Open FTP Resource'',
                              arguments = [AUri (resource element)]\<rparr>)\<rparr>"

section \<open>The file explorer (fileExplorer.ts)\<close>

text \<open>
  The provider calls the operating system through \<open>fs\<close>, \<open>mkdirp\<close> and \<open>rimraf\<close>. These
  calls are parameters (the record \<open>nodefs\<close>, over any type \<open>'s\<close> of file-system states): a
  query reads the state, an update returns the error code it failed with, if any, and
  the state it leaves. The theorems about the provider hold for whatever the calls do.
  File names are taken as \<open>readdir\<close> gives them (\<open>normalizeNFC\<close> changes them on macOS only).
\<close>

datatype FileType = Unknown | File | Directory | SymbolicLink

record Stats =
  stIsFile :: bool
  stIsDirectory :: bool
  stIsSymbolicLink :: bool

record 's nodefs =
  os_exists :: "string \<Rightarrow> 's \<Rightarrow> bool"
  os_stat :: "string \<Rightarrow> 's \<Rightarrow> string + Stats"
  os_readdir :: "string \<Rightarrow> 's \<Rightarrow> string + string list"
  os_writeFile :: "string \<Rightarrow> string \<Rightarrow> 's \<Rightarrow> string option \<times> 's"
  os_mkdirp :: "string \<Rightarrow> 's \<Rightarrow> string option \<times> 's"
  os_rimraf :: "string \<Rightarrow> 's \<Rightarrow> string option \<times> 's"
  os_rename :: "string \<Rightarrow> string \<Rightarrow> 's \<Rightarrow> string option \<times> 's"

datatype fs_error =
  FileNotFound | FileIsADirectory | FileExists | NoPermissions | SystemError string
  | NoWorkspaceFolders

text \<open>\<open>massageError\<close>, on the code of the system's error.\<close>

definition massageError :: "string \<Rightarrow> fs_error" where
  "massageError code =
     (if code = ''ENOENT'' then FileNotFound
      else if code = ''EISDIR'' then FileIsADirectory
      else if code = ''EEXIST'' then FileExists
      else if code = ''EPERM'' \<or> code = ''EACCESS'' then NoPermissions
      else SystemError code)"


definition fileType :: "Stats \<Rightarrow> FileType" where
  "fileType st =
     (if stIsFile st then File
      else if stIsDirectory st then Directory
      else if stIsSymbolicLink st then SymbolicLink
      else Unknown)"

record Entry =
  entry_uri :: uri
  entry_kind :: FileType


definition stat :: "'s nodefs \<Rightarrow> string \<Rightarrow> 's \<Rightarrow> fs_error + FileType" where
  "stat os p s =
     (case os_stat os p s of
        Inl code \<Rightarrow> Inl (massageError code)
      | Inr st \<Rightarrow> Inr (fileType st))"

text \<open>The loop of \<open>_readDirectory\<close> over the names that \<open>readdir\<close> gave.\<close>

fun statAll :: "'s nodefs \<Rightarrow> string \<Rightarrow> string list \<Rightarrow> 's \<Rightarrow> fs_error + (string \<times> FileType) list" where
  "statAll os dir [] s = Inr []"
| "statAll os dir (child # rest) s =
     (case stat os (join dir child) s of
        Inl e \<Rightarrow> Inl e
      | Inr t \<Rightarrow> (case statAll os dir rest s of
                    Inl e \<Rightarrow> Inl e
                  | Inr result \<Rightarrow> Inr ((child, t) # result)))"

definition readDirectory :: "'s nodefs \<Rightarrow> uri \<Rightarrow> 's \<Rightarrow> fs_error + (string \<times> FileType) list" where
  "readDirectory os u s =
     (case os_readdir os (fsPath u) s of
        Inl code \<Rightarrow> Inl (massageError code)
      | Inr names \<Rightarrow> statAll os (fsPath u) names s)"



text \<open>The comparison that \<open>getChildren\<close> sorts the entries of the workspace folder with.\<close>

definition fs_compare ::
    "(string \<Rightarrow> string \<Rightarrow> int) \<Rightarrow> string \<times> FileType \<Rightarrow> string \<times> FileType \<Rightarrow> int" where
  "fs_compare localeCompare a b =
     (if snd a = snd b then localeCompare (fst a) (fst b)
      else if snd a = Directory then - 1 else 1)"

text \<open>\<open>getChildren\<close>: the entries of an element are returned as \<open>readDirectory\<close> gave them; the
  entries of the first workspace folder with the scheme \<open>file\<close> are sorted first.
  \<open>workspace.workspaceFolders\<close> is undefined when no folder is open.\<close>

definition fs_getChildren ::
    "'s nodefs \<Rightarrow> (string \<Rightarrow> string \<Rightarrow> int) \<Rightarrow> uri list option \<Rightarrow> Entry option \<Rightarrow> 's
      \<Rightarrow> fs_error + Entry list" where
  "fs_getChildren os localeCompare workspaceFolders element s =
     (case element of
        Some e \<Rightarrow>
          (case readDirectory os (entry_uri e) s of
             Inl err \<Rightarrow> Inl err
           | Inr listing \<Rightarrow>
               Inr (map (\<lambda>(name, t). \<lparr>entry_uri = uriFile (join (fsPath (entry_uri e)) name),
                                       entry_kind = t\<rparr>) listing))
      | None \<Rightarrow>
          (case workspaceFolders of
             None \<Rightarrow> Inl NoWorkspaceFolders
           | Some folders \<Rightarrow>
               (case filter (\<lambda>folder. scheme folder = ''file'') folders of
                  [] \<Rightarrow> Inr []
                | workspaceFolder # _ \<Rightarrow>
                    (case readDirectory os workspaceFolder s of
                       Inl err \<Rightarrow> Inl err
                     | Inr listing \<Rightarrow>
                         Inr (map (\<lambda>(name, t).
                                     \<lparr>entry_uri = uriFile (join (fsPath workspaceFolder) name),
                                      entry_kind = t\<rparr>)
                                (sortBy (fs_compare localeCompare) listing))))))"

definition fs_getTreeItem :: "Entry \<Rightarrow> TreeItem" where
  "fs_getTreeItem element =
     (let treeItem = emptyItem\<lparr>
            resourceUri := Some (entry_uri element),
            collapsibleState :=
              Some (if entry_kind element = Directory then Collapsed else CNone)\<rparr>
      in if entry_kind element = File
         then treeItem\<lparr>
                command := Some \<lparr>command_id = ''fileExplorer.openFile'', title = ''Open File'',
                                 arguments = [AUri (entry_uri element)]\<rparr>,
                contextValue := Some ''file''\<rparr>
         else treeItem)"











section \<open>Concrete inputs\<close>

text \<open>The document \<open>{"a": 1, "b": [2,3]}\<close>, the tree that the parser gives for it, and the same
  after the key \<open>a\<close> has been renamed to \<open>x\<close>. \<open>exampleLocation\<close> gives, at the offset of each
  key and value of these documents, the path that \<open>getLocation\<close> finds there.\<close>

definition exampleText :: "string \<Rightarrow> string" where
  "exampleText k = ''{'' @ quoted k @ '': 1, '' @ quoted ''b'' @ '': [2,3]}''"

definition exampleTree :: "string \<Rightarrow> node" where
  "exampleTree k =
     Node TObject 0 20 None (Some
       [Node TProperty 1 6 None (Some
          [Node TString 1 3 (Some (VString k)) None,
           Node TNumber 6 1 (Some (VNumber ''1'')) None]),
        Node TProperty 9 10 None (Some
          [Node TString 9 3 (Some (VString ''b'')) None,
           Node TArray 14 5 None (Some
             [Node TNumber 15 1 (Some (VNumber ''2'')) None,
              Node TNumber 17 1 (Some (VNumber ''3'')) None])])])"

definition exampleLocation :: "string \<Rightarrow> nat \<Rightarrow> segment list" where
  "exampleLocation t off =
     (if off = 1 \<or> off = 6 then [Key (if t = exampleText ''x'' then ''x'' else ''a'')]
      else if off = 9 \<or> off = 14 then [Key ''b'']
      else if off = 15 then [Key ''b'', Index 0]
      else if off = 17 then [Key ''b'', Index 1]
      else [])"

definition exampleLib :: jsonc where
  "exampleLib =
     \<lparr>parseTree = (\<lambda>t. if t = exampleText ''a'' then Some (exampleTree ''a'')
                        else if t = exampleText ''x'' then Some (exampleTree ''x'')
                        else None),
      getLocation = exampleLocation\<rparr>"

text \<open>The provider showing that document, open in the active editor as \<open>doc.json\<close>.\<close>

definition exampleOutline :: "bool \<Rightarrow> outline" where
  "exampleOutline auto =
     \<lparr>p_text = exampleText ''a'', p_tree = Some (exampleTree ''a''), p_editor = Some ''doc.json'',
      p_autoRefresh = auto, fired = [],
      documents = (\<lambda>u. if u = ''doc.json'' then exampleText ''a'' else []),
      activeTextEditor = Some ''doc.json''\<rparr>"

text \<open>The provider with no active editor: \<open>doParseTree\<close> has left no text and no tree.\<close>

definition closedOutline :: outline where
  "closedOutline =
     \<lparr>p_text = [], p_tree = None, p_editor = None, p_autoRefresh = True, fired = [],
      documents = (\<lambda>u. []), activeTextEditor = None\<rparr>"

text \<open>The document \<open>[null]\<close> and its tree.\<close>

definition nullOutline :: outline where
  "nullOutline =
     \<lparr>p_text = ''[null]'',
      p_tree = Some (Node TArray 0 6 None (Some [Node TNull 1 4 (Some VNull) None])),
      p_editor = Some ''doc.json'', p_autoRefresh = True, fired = [],
      documents = (\<lambda>u. if u = ''doc.json'' then ''[null]'' else []),
      activeTextEditor = Some ''doc.json''\<rparr>"

definition nullLib :: jsonc where
  "nullLib =
     \<lparr>parseTree = (\<lambda>t. if t = ''[null]''
                        then Some (Node TArray 0 6 None (Some [Node TNull 1 4 (Some VNull) None]))
                        else None),
      getLocation = (\<lambda>t off. if 1 \<le> off \<and> off \<le> 5 then [Index 0] else [])\<rparr>"

text \<open>An FTP server with the directory \<open>pub\<close> at its root and the file \<open>README\<close> in it, and
  one whose \<open>list\<close> and \<open>get\<close> fail.\<close>

definition exampleServer :: server where
  "exampleServer =
     \<lparr>onConnect = None,
      onList = (\<lambda>p. if p = None then Inr [\<lparr>entry_name = ''pub'', entry_type = ''d''\<rparr>]
                    else if p = Some ''///pub''
                    then Inr [\<lparr>entry_name = ''README'', entry_type = ''-''\<rparr>]
                    else Inl ''550''),
      onGet = (\<lambda>p. if p = ''/pub/README'' then Inr [''hello '', ''world''] else Inl ''550'')\<rparr>"

definition failingServer :: server where
  "failingServer = \<lparr>onConnect = None, onList = (\<lambda>p. Inl ''550''), onGet = (\<lambda>p. Inl ''550'')\<rparr>"

definition pubNode :: FtpNode where
  "pubNode =
     \<lparr>resource = \<lparr>scheme = ''ftp'', authority = ''mirror.switch.ch'', path = ''///pub'',
                   query = [], fragment = []\<rparr>,
      isDirectory = True\<rparr>"

text \<open>The node that the explorer lists under \<open>pub\<close>.\<close>

definition readmeNode :: FtpNode where
  "readmeNode =
     \<lparr>resource = \<lparr>scheme = ''file'', authority = [], path = ''/pub/README'',
                   query = [], fragment = []\<rparr>,
      isDirectory = False\<rparr>"



section \<open>Properties of the JSON outline provider\<close>

lemma doParseTree_host:
  "documents (doParseTree lib st) = documents st"
  "activeTextEditor (doParseTree lib st) = activeTextEditor st"
  "fired (doParseTree lib st) = fired st"
  by (simp_all add: doParseTree_def split: option.splits)


lemma fire_host:
  "documents (fire ev st) = documents st"
  "activeTextEditor (fire ev st) = activeTextEditor st"
  by (simp_all add: fire_def)


lemma onDocumentChanged_editor:
  "p_editor st = Some u \<Longrightarrow> \<exists>st'. onDocumentChanged lib w cs st = Inr st'"
  by (simp add: onDocumentChanged_def)

lemma changesLoop_host:
  "documents (changesLoop lib cs st) = documents st
   \<and> activeTextEditor (changesLoop lib cs st) = activeTextEditor st"
  by (induction cs arbitrary: st) (simp_all add: Let_def fire_host doParseTree_host)

lemma onDocumentChanged_host:
  "onDocumentChanged lib w cs st = Inr st' \<Longrightarrow>
   documents st' = documents st \<and> activeTextEditor st' = activeTextEditor st
   \<and> (\<not> p_autoRefresh st \<longrightarrow> st' = st)"
  using changesLoop_host[of lib cs st]
  by (auto simp: onDocumentChanged_def split: option.splits if_splits)

lemma refresh_host:
  "documents (refresh lib offset st) = documents st"
  "activeTextEditor (refresh lib offset st) = activeTextEditor st"
  by (simp_all add: refresh_def Let_def fire_host doParseTree_host)

lemma refresh_fired:
  "map payload (fired (refresh lib (Some offset) st)) =
     map payload (fired st) @ [if offset = 0 then None else Some offset]"
  by (simp add: refresh_def Let_def fire_def doParseTree_host)

lemma rename_applies_edit:
  assumes ed: "p_editor st = Some u"
    and tg: "renameTarget lib st offset = Inr k"
  shows "\<exists>st'. rename lib offset (Some v) st = Inr st'
      \<and> documents st' =
          (documents st)(u := replaceRange (documents st u) (noffset k) (noffset k + nlength k) (quoted v))
      \<and> (\<exists>evs. map payload (fired st') =
             map payload (fired st) @ evs @ [if offset = 0 then None else Some offset]
             \<and> (\<not> p_autoRefresh st \<longrightarrow> evs = []))"
proof -
  let ?new = "replaceRange (documents st u) (noffset k) (noffset k + nlength k) (quoted v)"
  let ?st1 = "st\<lparr>documents := (documents st)(u := ?new)\<rparr>"
  have "p_editor ?st1 = Some u" using ed by simp
  then obtain st2 where
    st2: "onDocumentChanged lib u [positionAt (documents st u) (noffset k)] ?st1 = Inr st2"
    using onDocumentChanged_editor by blast
  let ?st' = "refresh lib (Some offset) (doParseTree lib st2)"
  have r: "rename lib offset (Some v) st = Inr ?st'"
    using ed tg st2 by (simp add: rename_def externalEdit_def Let_def)
  have h2: "documents st2 = documents ?st1" "\<not> p_autoRefresh st \<longrightarrow> st2 = ?st1"
    using onDocumentChanged_host[OF st2] by simp_all
  have d: "documents ?st' = (documents st)(u := ?new)"
    using h2(1) by (simp add: refresh_host doParseTree_host)
  obtain ns where ns: "fired st2 = fired ?st1 @ ns"
  proof (cases "p_autoRefresh ?st1 \<and> u = u")
    case True
    then have "st2 = changesLoop lib [positionAt (documents st u) (noffset k)] ?st1"
      using st2 ed by (simp add: onDocumentChanged_def)
    then show ?thesis using that by (simp add: Let_def fire_def doParseTree_host)
  next
    case False
    then have "st2 = ?st1" using h2(2) by simp
    then show ?thesis using that by simp
  qed
  have n0: "\<not> p_autoRefresh st \<longrightarrow> ns = []"
    using h2(2) ns by auto
  have "map payload (fired ?st') =
          map payload (fired st) @ map payload ns @ [if offset = 0 then None else Some offset]"
    using ns by (simp add: refresh_fired doParseTree_host)
  with r d n0 show ?thesis by auto
qed

lemma renameTarget_key:
  assumes "findNodeAtLocation (p_tree st) (getLocation lib (p_text st) offset) = Some (Some par, n)"
    and "ntype par \<noteq> TArray" and "children par = Some (k # ks)"
  shows "renameTarget lib st offset = Inr k"
  using assms by (simp add: renameTarget_def)




text \<open>
  C10. \<open>refresh\<close> with offset 0 fires the root-changed event (no payload), exactly as
  \<open>refresh\<close> without an offset does; and whatever the offset, the event that \<open>refresh\<close> fires
  never has the payload 0.
\<close>

theorem refresh_zero_fires_root:
  "fired (refresh lib (Some 0) st) = fired (refresh lib None st)
   \<and> map payload (fired (refresh lib (Some 0) st)) = map payload (fired st) @ [None]
   \<and> payload (last (fired (refresh lib offset st))) \<noteq> Some 0"
proof -
  have a: "map payload (fired (refresh lib (Some 0) st)) = map payload (fired st) @ [None]"
    by (simp add: refresh_def fire_def doParseTree_host Let_def)
  have b: "fired (refresh lib (Some 0) st) = fired (refresh lib None st)"
    by (simp add: refresh_def)
  have c: "payload (last (fired (refresh lib offset st))) \<noteq> Some 0"
    by (cases offset) (simp_all add: refresh_def fire_def Let_def)
  from a b c show ?thesis by simp
qed

text \<open>
  C4. When the node at the offset has a parent that is not an array, \<open>rename\<close> overwrites the
  parent's first child (the key token) with the quoted new value. The event that \<open>rename\<close>
  itself publishes, the last one, carries the offset that \<open>rename\<close> was called with, which
  is the offset of the value node (no payload when that offset is 0); with auto-refresh off
  it is the only event.
\<close>

theorem rename_redirects_to_key:
  assumes "p_editor st = Some u"
    and "findNodeAtLocation (p_tree st) (getLocation lib (p_text st) offset) = Some (Some par, n)"
    and "ntype par \<noteq> TArray"
    and "children par = Some (k # ks)"
  shows "\<exists>st'. rename lib offset (Some v) st = Inr st'
      \<and> documents st' u =
          replaceRange (documents st u) (noffset k) (noffset k + nlength k) (quoted v)
      \<and> fired st' \<noteq> []
      \<and> payload (last (fired st')) = (if offset = 0 then None else Some offset)
      \<and> (\<not> p_autoRefresh st \<longrightarrow>
           map payload (fired st') =
             map payload (fired st) @ [if offset = 0 then None else Some offset])"
proof -
  have tg: "renameTarget lib st offset = Inr k"
    using assms(2-4) by (rule renameTarget_key)
  from rename_applies_edit[OF assms(1) tg, of v] obtain st' evs where
    r: "rename lib offset (Some v) st = Inr st'"
    and d: "documents st' =
          (documents st)(u := replaceRange (documents st u) (noffset k) (noffset k + nlength k) (quoted v))"
    and f: "map payload (fired st') =
             map payload (fired st) @ evs @ [if offset = 0 then None else Some offset]"
    and e: "\<not> p_autoRefresh st \<longrightarrow> evs = []"
    by blast
  have ne: "fired st' \<noteq> []" using f by auto
  have "last (map payload (fired st')) = (if offset = 0 then None else Some offset)"
    using f by simp
  then have l: "payload (last (fired st')) = (if offset = 0 then None else Some offset)"
    using ne by (simp add: last_map)
  from r d ne l f e show ?thesis by auto
qed

text \<open>Renaming the key \<open>a\<close> to \<open>x\<close> in \<open>{"a": 1, "b": [2,3]}\<close>, the outline's node for \<open>a\<close> being
  the value at offset 6.\<close>

theorem rename_redirects_to_key_witness:
  "map_sum id (\<lambda>s. (documents s ''doc.json'', map payload (fired s)))
     (rename exampleLib 6 (Some ''x'') (exampleOutline False))
   = Inr (exampleText ''x'', [Some 6])"
proof -
  have a: "p_editor (exampleOutline False) = Some ''doc.json''"
    by (simp add: exampleOutline_def)
  have b: "findNodeAtLocation (p_tree (exampleOutline False))
             (getLocation exampleLib (p_text (exampleOutline False)) 6)
           = Some (Some (Node TProperty 1 6 None (Some
                [Node TString 1 3 (Some (VString ''a'')) None,
                 Node TNumber 6 1 (Some (VNumber ''1'')) None])),
                   Node TNumber 6 1 (Some (VNumber ''1'')) None)"
    by (simp add: exampleOutline_def exampleLib_def exampleLocation_def exampleTree_def
        findNodeAtLocation_def exampleText_def quoted_def)
  have c: "replaceRange (documents (exampleOutline False) ''doc.json'') 1 (1 + 3) (quoted ''x'')
           = exampleText ''x''"
    by (simp add: exampleOutline_def replaceRange_def positionAt_def exampleText_def quoted_def)
  from rename_redirects_to_key[OF a b, where ks = "[Node TNumber 6 1 (Some (VNumber ''1'')) None]"
      and k = "Node TString 1 3 (Some (VString ''a'')) None" and v = "''x''"] c
  show ?thesis
    by (auto simp: exampleOutline_def)
qed

text \<open>In that scenario the event published by \<open>rename\<close> names offset 6, the number node that
  is the value of \<open>a\<close>; the root-changed event comes only from the document-change handler,
  when auto-refresh is on, and is followed by the event for offset 6.\<close>

theorem rename_event_counterexample:
  "map_sum id (\<lambda>s. map payload (fired s))
     (rename exampleLib 6 (Some ''x'') (exampleOutline False)) = Inr [Some 6]
   \<and> map_sum id (\<lambda>s. map payload (fired s))
     (rename exampleLib 6 (Some ''x'') (exampleOutline True)) = Inr [None, Some 6]
   \<and> map_option (\<lambda>f. (ntype (snd f), noffset (snd f)))
       (findNodeAtLocation (Some (exampleTree ''a'')) (exampleLocation (exampleText ''a'') 6))
     = Some (TNumber, 6)"
  by (simp add: rename_def renameTarget_def externalEdit_def onDocumentChanged_def refresh_def
      doParseTree_def fire_def exampleOutline_def exampleLib_def exampleLocation_def
      exampleTree_def findNodeAtLocation_def exampleText_def quoted_def replaceRange_def
      positionAt_def Let_def)

text \<open>Whenever a non-zero offset finds no node, \<open>getChildren\<close> throws.\<close>

lemma json_getChildren_unresolved:
  "off \<noteq> 0 \<Longrightarrow> findNodeAtLocation (p_tree st) (getLocation lib (p_text st) off) = None \<Longrightarrow>
   json_getChildren lib st (Some off) = Inl TypeError"
  by (simp add: json_getChildren_def getChildrenOffsets_def)

text \<open>
  C2. With no active editor the provider has no tree, so no offset finds a node; asked for
  the children of offset 5, \<open>getChildren\<close> throws (it iterates the children of an undefined
  node) where the root query returns the empty list.
\<close>

theorem json_getChildren_unresolved_throws:
  "findNodeAtLocation (p_tree closedOutline) (getLocation lib (p_text closedOutline) 5) = None
   \<and> json_getChildren lib closedOutline (Some 5) = Inl TypeError
   \<and> json_getChildren lib closedOutline None = Inr []"
  by (simp add: json_getChildren_def json_rootChildren_def getChildrenOffsets_def
      findNodeAtLocation_def closedOutline_def)

text \<open>The outline of \<open>{"a": 1, "b": [2,3]}\<close>: the root has the children \<open>a\<close> and \<open>b\<close>, in that
  order; \<open>b\<close> can be expanded; its children are labelled \<open>0:2\<close> and \<open>1:3\<close>.\<close>

theorem outline_scenario:
  "json_getChildren exampleLib (exampleOutline True) None = Inr [6, 14]
   \<and> map_sum id (map_option (\<lambda>i. (label i, collapsibleState i)))
        (json_getTreeItem exampleLib (exampleOutline True) 14) = Inr (Some (Some ''[ ] b'', Some Collapsed))
   \<and> json_getChildren exampleLib (exampleOutline True) (Some 14) = Inr [15, 17]
   \<and> map_sum id (map_option label) (json_getTreeItem exampleLib (exampleOutline True) 15)
        = Inr (Some (Some ''0:2''))
   \<and> map_sum id (map_option label) (json_getTreeItem exampleLib (exampleOutline True) 17)
        = Inr (Some (Some ''1:3''))"
  by (simp add: json_getTreeItem_def json_getChildren_def json_rootChildren_def
      getChildrenOffsets_def getLabel_def findNodeAtLocation_def exampleOutline_def exampleLib_def
      exampleLocation_def exampleTree_def exampleText_def quoted_def List.map_filter_def
      emptyItem_def positionAt_def getIcon_def typeName_def)

text \<open>In the outline of \<open>[null]\<close> the root lists the element at offset 1, and \<open>getTreeItem\<close>
  throws for it: \<open>getLabel\<close> calls \<open>toString\<close> on the value null.\<close>

theorem getTreeItem_null_element_throws:
  "map_option (\<lambda>f. (ntype (snd f), noffset (snd f)))
     (findNodeAtLocation (p_tree nullOutline) (getLocation nullLib (p_text nullOutline) 1))
     = Some (TNull, 1)
   \<and> json_getChildren nullLib nullOutline None = Inr [1]
   \<and> json_getTreeItem nullLib nullOutline 1 = Inl TypeError"
  by (simp add: json_getTreeItem_def json_getChildren_def json_rootChildren_def
      getChildrenOffsets_def getLabel_def findNodeAtLocation_def nullOutline_def nullLib_def
      List.map_filter_def)

section \<open>Sorting with a comparison function\<close>

text \<open>When the comparison puts every element with a property before every element
  without it, so does the sorted list; the sorted list is a permutation of the input.\<close>

lemma insertBy_mset: "mset (insertBy cmp x ys) = add_mset x (mset ys)"
  by (induction ys) simp_all

lemma sortBy_mset: "mset (sortBy cmp xs) = mset xs"
  by (induction xs) (simp_all add: sortBy_def insertBy_mset)

lemma insertBy_set: "set (insertBy cmp x ys) = insert x (set ys)"
  by (induction ys) auto

lemma insertBy_first:
  assumes before: "\<And>a b. P a \<Longrightarrow> \<not> P b \<Longrightarrow> cmp a b \<le> 0"
    and after: "\<And>a b. \<not> P a \<Longrightarrow> P b \<Longrightarrow> cmp a b > 0"
  shows "sorted_wrt (\<lambda>a b. P b \<longrightarrow> P a) ys \<Longrightarrow>
         sorted_wrt (\<lambda>a b. P b \<longrightarrow> P a) (insertBy cmp x ys)"
proof (induction ys)
  case Nil
  then show ?case by simp
next
  case (Cons y ys)
  show ?case
  proof (cases "cmp x y \<le> 0")
    case True
    then have "P y \<longrightarrow> P x" using after[of x y] by auto
    then show ?thesis using True Cons.prems by auto
  next
    case False
    then have "P x \<longrightarrow> P y" using before[of x y] by auto
    then show ?thesis using False Cons by (auto simp: insertBy_set)
  qed
qed

lemma sortBy_first:
  assumes "\<And>a b. P a \<Longrightarrow> \<not> P b \<Longrightarrow> cmp a b \<le> 0"
    and "\<And>a b. \<not> P a \<Longrightarrow> P b \<Longrightarrow> cmp a b > 0"
  shows "sorted_wrt (\<lambda>a b. P b \<longrightarrow> P a) (sortBy cmp xs)"
proof (induction xs)
  case Nil
  then show ?case by (simp add: sortBy_def)
next
  case (Cons x xs)
  have "sortBy cmp (x # xs) = insertBy cmp x (sortBy cmp xs)"
    by (simp add: sortBy_def)
  with Cons insertBy_first[of P cmp, OF assms] show ?case by simp
qed

lemma first_partition:
  "sorted_wrt (\<lambda>a b. P b \<longrightarrow> P a) xs \<Longrightarrow> filter P xs @ filter (\<lambda>a. \<not> P a) xs = xs"
proof (induction xs)
  case Nil
  then show ?case by simp
next
  case (Cons x xs)
  show ?case
  proof (cases "P x")
    case True
    with Cons show ?thesis by simp
  next
    case False
    with Cons.prems have "\<forall>b\<in>set xs. \<not> P b" by auto
    then have "filter P xs = []" "filter (\<lambda>a. \<not> P a) xs = xs"
      by (simp_all add: filter_empty_conv filter_id_conv)
    with False show ?thesis by simp
  qed
qed

section \<open>Properties of the FTP explorer\<close>

lemmas uri_defs = uriParse_def uriFile_def mkUri_def schemeFix_def referenceResolution_def
  withPath_def fsPath_def dirname_def basename_def slash_def isLetter_def toLowerCase_def


lemma fsPath_file:
  "fsPath (uriFile ''/w'') = ''/w''" "fsPath (uriFile ''/w/d'') = ''/w/d''"
  "fsPath (uriFile ''/w/t.txt'') = ''/w/t.txt''" "fsPath (uriFile ''/w/missing.txt'') = ''/w/missing.txt''"
  "fsPath (uriFile ''/w/new.txt'') = ''/w/new.txt''"
  by (simp_all add: uri_defs)

lemma join_examples:
  "join ''/w/d'' ''b.txt'' = ''/w/d/b.txt''" "join ''/w/d'' ''a'' = ''/w/d/a''"
  "join ''/w'' ''d'' = ''/w/d''" "join ''/w'' ''t.txt'' = ''/w/t.txt''"
  by (simp_all add: join_def normalize_def slash_def)

lemma dirname_examples:
  "dirname ''/w'' = ''/''" "dirname ''/w/d'' = ''/w''" "dirname ''/w/d/b.txt'' = ''/w/d''"
  "dirname ''/w/d/a'' = ''/w/d''" "dirname ''/w/t.txt'' = ''/w''"
  "dirname ''/w/new.txt'' = ''/w''" "dirname ''/w/missing.txt'' = ''/w''"
  by (simp_all add: dirname_def slash_def)

lemma basename_examples:
  "basename ''/w/d/b.txt'' = ''b.txt''" "basename ''/w/d/a'' = ''a''"
  "basename ''/w/d'' = ''d''" "basename ''/w/t.txt'' = ''t.txt''"
  by (simp_all add: basename_def slash_def)

lemmas example_paths = fsPath_file join_examples dirname_examples basename_examples

text \<open>
  C1. The explorer lists the directory \<open>pub\<close> at the root of the server as the node
  \<open>ftp://mirror.switch.ch///pub\<close>. The node it lists under that directory is built from the
  directory's \<open>fsPath\<close>, which has neither scheme nor host, so it is \<open>file:///pub/README\<close>; its
  parent by \<open>getParent\<close> is \<open>file:///pub\<close>, not the directory node it was listed under.
\<close>

theorem ftp_child_parent_mismatch:
  "fst (ftp_getChildren lc ''mirror.switch.ch'' exampleServer None) = Inr [pubNode]
   \<and> fst (ftp_getChildren lc ''mirror.switch.ch'' exampleServer (Some pubNode)) = Inr [readmeNode]
   \<and> ftp_getParent readmeNode =
        Some \<lparr>resource = \<lparr>scheme = ''file'', authority = [], path = ''/pub'',
                            query = [], fragment = []\<rparr>,
              isDirectory = True\<rparr>
   \<and> ftp_getParent readmeNode \<noteq> Some pubNode"
proof -
  have a: "fst (ftp_getChildren lc ''mirror.switch.ch'' exampleServer None) = Inr [pubNode]"
    by (simp add: ftp_getChildren_def roots_def connect_def exampleServer_def ftp_sort_def
        sortBy_def pubNode_def uri_defs Let_def)
  have f: "fsPath (resource pubNode) = ''///pub''"
    by (simp add: pubNode_def uri_defs)
  have b: "fst (ftp_getChildren lc ''mirror.switch.ch'' exampleServer (Some pubNode))
           = Inr [readmeNode]"
    by (simp add: ftp_getChildren_def ftp_model_getChildren_def connect_def f exampleServer_def
        ftp_sort_def sortBy_def readmeNode_def uriParse_def mkUri_def schemeFix_def
        referenceResolution_def slash_def Let_def)
  have c: "ftp_getParent readmeNode =
        Some \<lparr>resource = \<lparr>scheme = ''file'', authority = [], path = ''/pub'',
                            query = [], fragment = []\<rparr>,
              isDirectory = True\<rparr>"
    by (simp add: ftp_getParent_def readmeNode_def uri_defs Let_def)
  have d: "ftp_getParent readmeNode \<noteq> Some pubNode"
    by (simp add: c pubNode_def)
  from a b c d show ?thesis by simp
qed

text \<open>
  C7. When \<open>list\<close> or \<open>get\<close> calls back with an error, the operation rejects with it after one
  connection attempt and without a call of \<open>end\<close>: the connection stays open. On success
  the connection is ended.
\<close>

theorem ftp_error_path_leaves_connection_open:
  "roots lc host failingServer = (Inl (Failed ''550''), [Connect, List None])
   \<and> ftp_model_getChildren lc failingServer node =
        (Inl (Failed ''550''), [Connect, List (Some (fsPath (resource node)))])
   \<and> getContent failingServer res = (Inl (Failed ''550''), [Connect, Get (drop 2 (path res))])
   \<and> snd (roots lc host exampleServer) = [Connect, List None, End]"
  by (simp add: roots_def ftp_model_getChildren_def getContent_def connect_def
      failingServer_def exampleServer_def)

text \<open>Whatever \<open>localeCompare\<close> does, \<open>FtpModel.sort\<close> returns a permutation of the nodes with all
  directories before all files.\<close>

theorem ftp_sort_directories_first:
  "filter isDirectory (ftp_sort lc nodes) @ filter (\<lambda>n. \<not> isDirectory n) (ftp_sort lc nodes)
     = ftp_sort lc nodes
   \<and> mset (ftp_sort lc nodes) = mset nodes"
proof -
  have "sorted_wrt (\<lambda>a b. isDirectory b \<longrightarrow> isDirectory a) (sortBy (ftp_compare lc) nodes)"
    by (rule sortBy_first) (simp_all add: ftp_compare_def)
  then show ?thesis
    using first_partition[of isDirectory "sortBy (ftp_compare lc) nodes"]
    by (simp add: ftp_sort_def sortBy_mset)
qed

text \<open>Every operation of the model tries to connect exactly once, whatever the server does,
  and it fails exactly when it has not called \<open>end\<close>.\<close>

theorem ftp_one_connection:
  "count_list (snd (roots lc host srv)) Connect = 1
   \<and> count_list (snd (ftp_model_getChildren lc srv node)) Connect = 1
   \<and> count_list (snd (getContent srv res)) Connect = 1
   \<and> (isl (fst (roots lc host srv)) = (End \<notin> set (snd (roots lc host srv))))
   \<and> (isl (fst (ftp_model_getChildren lc srv node))
        = (End \<notin> set (snd (ftp_model_getChildren lc srv node))))
   \<and> (isl (fst (getContent srv res)) = (End \<notin> set (snd (getContent srv res))))"
  by (simp add: roots_def ftp_model_getChildren_def getContent_def connect_def
      split: option.splits sum.splits)

section \<open>Properties of the file explorer\<close>

text \<open>The entries of the workspace folder are a permutation of the listing with all
  directories first, whatever \<open>localeCompare\<close> does.\<close>

theorem fs_root_directories_first:
  "filter (\<lambda>e. snd e = Directory) (sortBy (fs_compare lc) listing)
     @ filter (\<lambda>e. snd e \<noteq> Directory) (sortBy (fs_compare lc) listing)
     = sortBy (fs_compare lc) listing
   \<and> mset (sortBy (fs_compare lc) listing) = mset listing"
proof -
  have "sorted_wrt (\<lambda>a b. snd b = Directory \<longrightarrow> snd a = Directory) (sortBy (fs_compare lc) listing)"
    by (rule sortBy_first) (auto simp: fs_compare_def)
  then show ?thesis
    using first_partition[of "\<lambda>e. snd e = Directory" "sortBy (fs_compare lc) listing"]
    by (simp add: example_paths sortBy_mset)
qed


text \<open>Whatever the system lists, the children of an element come in the order of the
  listing.\<close>

lemma fs_getChildren_element_order:
  "readDirectory os (entry_uri e) s = Inr listing \<Longrightarrow>
   \<exists>es. fs_getChildren os lc folders (Some e) s = Inr es \<and> map entry_kind es = map snd listing"
  by (simp add: fs_getChildren_def case_prod_unfold comp_def)







section \<open>Properties of the static test view\<close>

lemma getTreeElement_zz: "getTreeElement ''zz'' = None"
  by (simp add: getTreeElement_def tree_def upt_rec)

lemma getTreeElement_ab: "getTreeElement ''ab'' = Some (Obj [])"
  by (simp add: getTreeElement_def tree_def upt_rec)

lemma nodesOf_self: "(k, t) \<in> set (nodesOf k t)"
  by (cases t) simp

lemma nodesOf_closed:
  "(kp, parent) \<in> set (nodesOf k0 t0) \<Longrightarrow> (k', p) \<in> set (properties parent) \<Longrightarrow>
   (k', p) \<in> set (nodesOf k0 t0)"
proof (induction k0 t0 rule: nodesOf.induct)
  case (1 k kvs)
  show ?case
  proof (cases "(kp, parent) = (k, Obj kvs)")
    case True
    then have "(k', p) \<in> set kvs" using "1.prems"(2) by simp
    moreover have "(k', p) \<in> set (nodesOf k' p)" by (rule nodesOf_self)
    ultimately show ?thesis by force
  next
    case False
    then obtain k1 t1 where in1: "(k1, t1) \<in> set kvs" and m: "(kp, parent) \<in> set (nodesOf k1 t1)"
      using "1.prems"(1) by auto
    from "1.IH"[OF in1 refl m "1.prems"(2)] have "(k', p) \<in> set (nodesOf k1 t1)" .
    with in1 show ?thesis by force
  qed
qed

lemma loop_reaches:
  "(kp, parent) \<in> set (nodesOf [] tree) \<Longrightarrow>
   getTreeElementLoop element js parent = Some t \<Longrightarrow> js \<noteq> [] \<Longrightarrow>
   (take (last js + 1) element, t) \<in> set (nodesOf [] tree)"
proof (induction js arbitrary: kp parent)
  case Nil
  then show ?case by simp
next
  case (Cons i js)
  from Cons.prems(2) obtain p where
    l: "map_of (properties parent) (take (i + 1) element) = Some p"
    and r: "getTreeElementLoop element js p = Some t"
    by (auto split: option.splits)
  from l have "(take (i + 1) element, p) \<in> set (properties parent)"
    by (rule map_of_SomeD)
  with Cons.prems(1) have n: "(take (i + 1) element, p) \<in> set (nodesOf [] tree)"
    by (rule nodesOf_closed)
  show ?case
  proof (cases "js = []")
    case True
    with r n show ?thesis by simp
  next
    case False
    from Cons.IH[OF n r False] False show ?thesis by simp
  qed
qed

lemma getTreeElement_node:
  assumes "getTreeElement element = Some t"
  shows "(element, t) \<in> set (nodesOf [] tree)"
proof (cases "element = []")
  case True
  with assms have "t = tree" by (simp add: getTreeElement_def)
  with True show ?thesis by (simp add: nodesOf_self)
next
  case False
  then have ne: "[0..<length element] \<noteq> []" by simp
  have "(take (last [0..<length element] + 1) element, t) \<in> set (nodesOf [] tree)"
    using loop_reaches[OF nodesOf_self _ ne] assms by (simp add: getTreeElement_def)
  moreover have "last [0..<length element] + 1 = length element"
    using False by (cases element rule: rev_cases) simp_all
  ultimately show ?thesis by simp
qed

lemma keys_extend:
  "(k, t) \<in> set (nodesOf [] tree) \<Longrightarrow> c \<in> set (keys t) \<Longrightarrow> take (length c - 1) c = k \<and> c \<noteq> []"
  by (auto simp: tree_def keys_def)

text \<open>The parent of every key that the test view lists under an element is that element;
  the keys listed at the root have no parent.\<close>

theorem tv_parent_of_child:
  "c \<in> set (tv_getChildren element) \<Longrightarrow> element \<noteq> Some [] \<Longrightarrow> tv_getParent c = element"
proof (cases element)
  case None
  assume "c \<in> set (tv_getChildren element)"
  with None have "c \<in> set (keys tree)" by (simp add: tv_getChildren_def getChildren_def)
  from keys_extend[OF nodesOf_self this] None show ?thesis
    by (auto simp: tv_getParent_def)
next
  case (Some k)
  assume c: "c \<in> set (tv_getChildren element)" and ne: "element \<noteq> Some []"
  from ne Some have k: "k \<noteq> []" by simp
  from c Some k have "c \<in> set (case getTreeElement k of Some t \<Rightarrow> keys t | None \<Rightarrow> [])"
    by (simp add: tv_getChildren_def getChildren_def)
  then obtain t where t: "getTreeElement k = Some t" and ct: "c \<in> set (keys t)"
    by (cases "getTreeElement k") simp_all
  from keys_extend[OF getTreeElement_node[OF t] ct] Some k show ?thesis
    by (simp add: tv_getParent_def)
qed

theorem tv_parent_of_child_witness:
  "''ab'' \<in> set (tv_getChildren (Some ''a'')) \<and> tv_getParent ''ab'' = Some ''a''"
proof -
  have a: "''ab'' \<in> set (tv_getChildren (Some ''a''))"
    by (simp add: tv_getChildren_def getChildren_def getTreeElement_def tree_def keys_def upt_rec)
  from tv_parent_of_child[OF a] a show ?thesis by simp
qed

text \<open>A key that finds no element has no children.\<close>

theorem tv_unknown_key_no_children:
  "getTreeElement k = None \<Longrightarrow> tv_getChildren (Some k) = []"
  by (cases "k = []") (simp_all add: tv_getChildren_def getChildren_def getTreeElement_def)

theorem tv_unknown_key_no_children_witness:
  "getTreeElement ''zz'' = None \<and> tv_getChildren (Some ''zz'') = []"
  using tv_unknown_key_no_children[of "''zz''"] getTreeElement_zz by simp

section \<open>Tree items across the providers\<close>

text \<open>
  C9. For a key that finds no element, the test view's \<open>getTreeItem\<close> returns an ordinary
  item that cannot be expanded, labelled with the key. The items of the file explorer and
  of the FTP explorer are functions of the element alone. Only the outline has an absent
  value: for an offset that finds no node, \<open>getTreeItem\<close> returns null.
\<close>

theorem getTreeItem_absent_only_in_outline:
  "(getTreeElement key = None \<longrightarrow>
      tv_getTreeItem key =
        emptyItem\<lparr>label := Some key,
          highlights := (if length key > 1 then Some [(length key - 2, length key - 1)] else None),
          itemId := Some key, tooltip := Some (''Tooltip for '' @ key),
          collapsibleState := Some CNone\<rparr>)
   \<and> resourceUri (fs_getTreeItem e) = Some (entry_uri e)
   \<and> collapsibleState (fs_getTreeItem e) =
        Some (if entry_kind e = Directory then Collapsed else CNone)
   \<and> resourceUri (ftp_getTreeItem n) = Some (resource n)
   \<and> (findNodeAtLocation (p_tree st) (getLocation lib (p_text st) offset) = None \<longrightarrow>
        json_getTreeItem lib st offset = Inr None)"
  by (simp add: tv_getTreeItem_def getTreeItem_def fs_getTreeItem_def ftp_getTreeItem_def
      json_getTreeItem_def emptyItem_def Let_def)

theorem getTreeItem_absent_only_in_outline_witness:
  "getTreeElement ''zz'' = None
   \<and> tv_getTreeItem ''zz'' =
        emptyItem\<lparr>label := Some ''zz'', highlights := Some [(0, 1)], itemId := Some ''zz'',
          tooltip := Some ''Tooltip for zz'', collapsibleState := Some CNone\<rparr>
   \<and> findNodeAtLocation (p_tree closedOutline) (getLocation exampleLib (p_text closedOutline) 6) = None
   \<and> json_getTreeItem exampleLib closedOutline 6 = Inr None"
proof -
  have f: "findNodeAtLocation (p_tree closedOutline) (getLocation exampleLib (p_text closedOutline) 6)
           = None"
    by (simp add: findNodeAtLocation_def closedOutline_def)
  from getTreeItem_absent_only_in_outline[where key = "''zz''" and st = closedOutline
      and lib = exampleLib and offset = 6] getTreeElement_zz f
  show ?thesis by simp
qed

text \<open>The item for the unknown key \<open>zz\<close> has the shape of the item for the leaf \<open>ab\<close>.\<close>

theorem getTreeItem_unknown_key_counterexample:
  "getTreeElement ''zz'' = None
   \<and> getTreeElement ''ab'' = Some (Obj [])
   \<and> tv_getTreeItem ''zz'' =
        emptyItem\<lparr>label := Some ''zz'', highlights := Some [(0, 1)], itemId := Some ''zz'',
          tooltip := Some ''Tooltip for zz'', collapsibleState := Some CNone\<rparr>
   \<and> tv_getTreeItem ''ab'' =
        emptyItem\<lparr>label := Some ''ab'', highlights := Some [(0, 1)], itemId := Some ''ab'',
          tooltip := Some ''Tooltip for ab'', collapsibleState := Some CNone\<rparr>"
  by (simp add: getTreeElement_zz getTreeElement_ab tv_getTreeItem_def getTreeItem_def keys_def
      emptyItem_def)

end
